theory Spec2Isabelle
  imports Complex_Main
begin

section \<open>The Queue view-model of Queue.tsx\<close>

text \<open>
  The component \<^verbatim>\<open>Queue\<close> of \<^verbatim>\<open>src/app/components/Queue.tsx\<close> keeps a list of
  queue entries, the current user's entry, a form and the data staged by the
  reservation page. Its handlers and its timer are embedded here as functions on an
  explicit state. What the JavaScript runtime supplies (the clock, the \<^verbatim>\<open>Date\<close>
  constructor on a string, \<^verbatim>\<open>JSON.parse\<close>, the local time zone) and what the remote
  queue API answers are parameters of these functions.
\<close>

subsection \<open>JavaScript values\<close>

text \<open>
  A JavaScript string is a sequence of UTF-16 code units. The slot separator
  \<^verbatim>\<open>U+2013\<close> (en dash) and the white space that \<^verbatim>\<open>trim\<close> and \<^verbatim>\<open>\s\<close> accept lie
  outside ASCII, so a string is a list of code units, each a natural number;
  \<open>js\<close> reads an ASCII literal as such a list.
\<close>

type_synonym jsstring = "nat list"

definition js :: "string \<Rightarrow> jsstring" where
  "js s = map of_char s"

text \<open>
  A JavaScript number that may be \<^verbatim>\<open>NaN\<close>. Times are integers (milliseconds since
  the epoch), waits are rationals (minutes): the arithmetic of the source is taken
  exactly, without the rounding of doubles. The range of \<^verbatim>\<open>Date\<close> is modelled
  (\<open>TimeClip\<close> below).
\<close>

datatype 'a number = NaN | Number 'a

text \<open>\<^verbatim>\<open>a === b\<close> on numbers: \<^verbatim>\<open>NaN\<close> equals nothing, not even itself.\<close>

fun strict_eq :: "'a number \<Rightarrow> 'a number \<Rightarrow> bool" where
  "strict_eq (Number a) (Number b) = (a = b)"
| "strict_eq _ _ = False"

text \<open>\<^verbatim>\<open>Math.max(0, x)\<close>: \<^verbatim>\<open>NaN\<close> when \<open>x\<close> is.\<close>

fun Math_max0 :: "rat number \<Rightarrow> rat number" where
  "Math_max0 NaN = NaN"
| "Math_max0 (Number x) = Number (max 0 x)"

text \<open>\<^verbatim>\<open>a - b\<close> on numbers, and \<^verbatim>\<open>ms / (1000 * 60)\<close>.\<close>

fun num_minus :: "('a::minus) number \<Rightarrow> 'a number \<Rightarrow> 'a number" where
  "num_minus (Number a) (Number b) = Number (a - b)"
| "num_minus _ _ = NaN"

fun to_minutes :: "int number \<Rightarrow> rat number" where
  "to_minutes NaN = NaN"
| "to_minutes (Number ms) = Number (of_int ms / (1000 * 60))"

text \<open>
  White space as \<^verbatim>\<open>String.prototype.trim\<close>, the regular expression class \<^verbatim>\<open>\s\<close> and
  \<^verbatim>\<open>parseInt\<close> read it: the ECMAScript \<^verbatim>\<open>WhiteSpace\<close> and \<^verbatim>\<open>LineTerminator\<close> code
  points (TAB, LF, VT, FF, CR, SP, NBSP, U+1680, U+2000..U+200A, LS, PS, U+202F,
  U+205F, U+3000, U+FEFF).
\<close>

definition is_ws :: "nat \<Rightarrow> bool" where
  "is_ws c \<longleftrightarrow>
     c \<in> {9, 10, 11, 12, 13, 32, 160, 5760, 8232, 8233, 8239, 8287, 12288, 65279}
     \<or> (8192 \<le> c \<and> c \<le> 8202)"

definition is_digit :: "nat \<Rightarrow> bool" where
  "is_digit c \<longleftrightarrow> 48 \<le> c \<and> c \<le> 57"

definition trim :: "jsstring \<Rightarrow> jsstring" where
  "trim s = rev (dropWhile is_ws (rev (dropWhile is_ws s)))"

text \<open>The value of a run of decimal digits, as \<^verbatim>\<open>parseInt\<close> reads \<^verbatim>\<open>\d+\<close>.\<close>

definition digits_value :: "jsstring \<Rightarrow> nat" where
  "digits_value ds = foldl (\<lambda>a c. 10 * a + (c - 48)) 0 ds"


text \<open>
  \<^verbatim>\<open>s.toUpperCase()\<close> on the ASCII letters; the source applies it to the text matched
  by \<^verbatim>\<open>(AM|PM)\<close> under the flag \<^verbatim>\<open>i\<close>, which is two ASCII letters.
\<close>

definition toUpperCase :: "jsstring \<Rightarrow> jsstring" where
  "toUpperCase s = map (\<lambda>c. if 97 \<le> c \<and> c \<le> 122 then c - 32 else c) s"

text \<open>
  A value as \<^verbatim>\<open>JSON.parse\<close> returns it, and \<^verbatim>\<open>undefined\<close> for a property that is
  not there.
\<close>

datatype jsvalue =
    JUndefined
  | JNull
  | JBool bool
  | JNum rat
  | JStr jsstring
  | JArr "jsvalue list"
  | JObj "(jsstring \<times> jsvalue) list"

text \<open>\<^verbatim>\<open>if (s)\<close> on a string, and on an optional string.\<close>

definition truthy :: "jsstring \<Rightarrow> bool" where
  "truthy s \<longleftrightarrow> s \<noteq> []"

fun truthy_opt :: "jsstring option \<Rightarrow> bool" where
  "truthy_opt None = False"
| "truthy_opt (Some s) = truthy s"

text \<open>\<^verbatim>\<open>a || b\<close> where \<open>a\<close> is an optional string and \<open>b\<close> a string.\<close>

fun or_else :: "jsstring option \<Rightarrow> jsstring \<Rightarrow> jsstring" where
  "or_else None d = d"
| "or_else (Some s) d = (if truthy s then s else d)"

subsection \<open>The data model\<close>

datatype NotificationMethod = sms | email

text \<open>
  \<^verbatim>\<open>interface QueueEntry\<close>. The fields \<^verbatim>\<open>hall\<close> and \<^verbatim>\<open>segment\<close> are declared as unions
  of string literals, but \<^verbatim>\<open>handleJoinQueue\<close> fills them with an unchecked cast of
  whatever string was staged, so they are strings here. \<^verbatim>\<open>guests\<close> is the result of
  \<^verbatim>\<open>parseInt\<close>, which may be \<^verbatim>\<open>NaN\<close>; \<^verbatim>\<open>joinedAt\<close> is a \<^verbatim>\<open>Date\<close>, held as its time
  value. The field \<^verbatim>\<open>id\<close> is \<open>entry_id\<close>, since \<open>id\<close> is the identity of HOL.
\<close>

record QueueEntry =
  entry_id :: jsstring
  name :: jsstring
  guests :: "int number"
  notificationMethod :: NotificationMethod
  contact :: jsstring
  hall :: jsstring
  segment :: jsstring
  position :: int
  estimatedWaitMinutes :: "rat number"
  joinedAt :: "int number"
  queueDate :: jsstring
  timeSlot :: "jsstring option"
  notifiedAt5Min :: bool
  tableName :: "jsstring option"
  tableId :: "jsstring option"
  tableLocation :: "jsstring option"
  tableSegment :: "jsstring option"
  tableCapacity :: "jsstring option"
  joinedAtTimestamp :: "int option"

subsection \<open>The runtime\<close>

text \<open>
  What the handlers take from the JavaScript runtime:
  \<^item> \<open>Date_new v\<close> is the time value of \<^verbatim>\<open>new Date(v)\<close>, \<open>NaN\<close> for an invalid date.
    ECMAScript fixes it for the date-time string format and leaves other strings to
    the implementation. For that format the standard says (ECMA-262, Date Time String
    Format): when the UTC offset is absent, date-only forms are interpreted as a UTC
    time and date-time forms as a local time. So \<^verbatim>\<open>new Date("2024-01-15")\<close> is midnight
    UTC of that day, in every time zone;
  \<^item> \<open>LocalTZA t isUTC\<close> is the offset of local time from UTC in milliseconds, as
    ECMAScript has it: at the UTC time value \<open>t\<close> when \<open>isUTC\<close> is true, at the
    local time value \<open>t\<close> otherwise. It varies with \<open>t\<close> where daylight saving
    applies;
  \<^item> \<open>JSON_parse s\<close> is the value of \<^verbatim>\<open>JSON.parse(s)\<close>, \<open>None\<close> when it throws
    \<^verbatim>\<open>SyntaxError\<close>;
  \<^item> \<open>as_entry v\<close> is a parsed value read through the interface \<^verbatim>\<open>QueueEntry\<close>:
    TypeScript's \<^verbatim>\<open>any\<close> makes this an unchecked cast.
\<close>

record runtime =
  Date_new :: "jsvalue \<Rightarrow> int number"
  LocalTZA :: "int \<Rightarrow> bool \<Rightarrow> int"
  JSON_parse :: "jsstring \<Rightarrow> jsvalue option"
  as_entry :: "jsvalue \<Rightarrow> QueueEntry"

text \<open>
  \<^verbatim>\<open>TimeClip\<close> of ECMAScript: a time value more than 8.64e15 milliseconds away from
  the epoch is no date, and the \<^verbatim>\<open>Date\<close> is invalid.
\<close>

definition msPerDay :: int where
  "msPerDay = 86400000"

definition TimeClip :: "int \<Rightarrow> int number" where
  "TimeClip u = (if \<bar>u\<bar> \<le> 8640000000000000 then Number u else NaN)"

text \<open>
  \<^verbatim>\<open>d.setHours(h, min, 0, 0)\<close>, as ECMAScript defines it: with \<open>t\<close> the time value of
  \<open>d\<close>, the new one is
  \<^verbatim>\<open>TimeClip(UTC(MakeDate(Day(LocalTime(t)), MakeTime(h, min, 0, 0))))\<close>, where
  \<^verbatim>\<open>LocalTime(t) = t + LocalTZA(t, true)\<close> and \<^verbatim>\<open>UTC(t) = t - LocalTZA(t, false)\<close>. The
  local day of \<open>d\<close> is kept and the time within the day replaced. An invalid date
  stays invalid, and the result is invalid when it leaves the range of \<^verbatim>\<open>Date\<close>, as
  it does for an hour of ten digits. (An hour so large that \<^verbatim>\<open>parseInt\<close> rounds it or
  returns \<^verbatim>\<open>Infinity\<close> is out of range all the more, so the natural number \<open>h\<close>
  stands for it.)
\<close>

fun setHours :: "(int \<Rightarrow> bool \<Rightarrow> int) \<Rightarrow> int number \<Rightarrow> nat \<Rightarrow> nat \<Rightarrow> int number" where
  "setHours tza NaN h m = NaN"
| "setHours tza (Number t) h m =
     (let localTime = t + tza t True;
          date = (localTime div msPerDay) * msPerDay + (int h * 3600000 + int m * 60000)
      in TimeClip (date - tza date False))"

subsection \<open>Parsing a time slot\<close>

text \<open>
  \<^verbatim>\<open>timeSlot.split(/[E-]/)\<close>, where \<^verbatim>\<open>E\<close> stands for the en dash of the source: the
  pieces between the occurrences of an en dash (U+2013, code unit 8211) or a hyphen
  (code unit 45).
\<close>

definition is_dash :: "nat \<Rightarrow> bool" where
  "is_dash c \<longleftrightarrow> c = 8211 \<or> c = 45"

fun split_dash :: "jsstring \<Rightarrow> jsstring list" where
  "split_dash [] = [[]]"
| "split_dash (c # cs) =
     (if is_dash c then [] # split_dash cs
      else (case split_dash cs of [] \<Rightarrow> [[c]] | p # ps \<Rightarrow> (c # p) # ps))"

text \<open>
  \<^verbatim>\<open>p.match(/(\d+):(\d+)\s*(AM|PM)/i)\<close>. \<open>match_here\<close> matches the expression at the
  start of the string: each of \<^verbatim>\<open>\d+\<close>, \<^verbatim>\<open>\d+\<close> and \<^verbatim>\<open>\s*\<close> takes the longest run
  (giving a character back never helps, as the next piece of the expression cannot
  match a digit or a white space). \<open>match_time\<close> is the search: the first position
  where the expression matches. The result is the three groups.
\<close>

definition match_here :: "jsstring \<Rightarrow> (jsstring \<times> jsstring \<times> jsstring) option" where
  "match_here s =
     (let d1 = takeWhile is_digit s in
      if d1 = [] then None
      else (case dropWhile is_digit s of
          [] \<Rightarrow> None
        | c # r \<Rightarrow>
            if c \<noteq> 58 then None
            else (let d2 = takeWhile is_digit r in
              if d2 = [] then None
              else (case dropWhile is_ws (dropWhile is_digit r) of
                  a # m # _ \<Rightarrow>
                    if (a = 65 \<or> a = 97 \<or> a = 80 \<or> a = 112) \<and> (m = 77 \<or> m = 109)
                    then Some (d1, d2, [a, m]) else None
                | _ \<Rightarrow> None))))"

fun match_time :: "jsstring \<Rightarrow> (jsstring \<times> jsstring \<times> jsstring) option" where
  "match_time [] = None"
| "match_time (c # cs) =
     (case match_here (c # cs) of Some g \<Rightarrow> Some g | None \<Rightarrow> match_time cs)"

text \<open>The inner function \<^verbatim>\<open>parsePart\<close> of \<^verbatim>\<open>parseSlotTimes\<close>.\<close>

definition parsePart :: "runtime \<Rightarrow> jsstring \<Rightarrow> jsstring \<Rightarrow> int number option" where
  "parsePart rt dateStr p =
     (case match_time p of
        None \<Rightarrow> None
      | Some (m1, m2, m3) \<Rightarrow>
          (let h = digits_value m1;
               min = digits_value m2;
               ampm = toUpperCase m3;
               h = (if ampm = js ''PM'' \<and> h < 12 then h + 12 else h);
               h = (if ampm = js ''AM'' \<and> h = 12 then 0 else h);
               d = Date_new rt (JStr dateStr)
           in Some (setHours (LocalTZA rt) d h min)))"

text \<open>\<^verbatim>\<open>parseSlotTimes\<close>: \<open>None\<close> is \<^verbatim>\<open>null\<close>, otherwise the pair \<^verbatim>\<open>{start, end}\<close>.\<close>

definition parseSlotTimes ::
  "runtime \<Rightarrow> jsstring \<Rightarrow> jsstring \<Rightarrow> (int number \<times> int number) option" where
  "parseSlotTimes rt dateStr ts =
     (if \<not> truthy ts then None
      else (let parts = map trim (split_dash ts) in
        if length parts < 2 then None
        else (case parsePart rt dateStr (parts ! 0) of
            None \<Rightarrow> None
          | Some start \<Rightarrow>
              (case parsePart rt dateStr (parts ! 1) of
                 None \<Rightarrow> None
               | Some end \<Rightarrow> Some (start, end)))))"


subsection \<open>The estimated wait and the one-second tick\<close>

text \<open>What the tick and the join cause besides the new state.\<close>

datatype effect =
    Alert jsstring
  | Alert5Min "jsstring option" "int number"
  | OnJoinQueue int
  | RemoveItem jsstring

text \<open>
  Lines 164 to 177, the body of the updater that \<^verbatim>\<open>setInterval\<close> runs every second:
  the new value of \<^verbatim>\<open>newEstimatedWaitMinutes\<close>, with \<open>now\<close> the value of
  \<^verbatim>\<open>Date.now()\<close>. The variable starts at \<open>0\<close> and keeps that value when the slot is
  there and \<^verbatim>\<open>parseSlotTimes\<close> returns \<^verbatim>\<open>null\<close>. An absent \<^verbatim>\<open>timeSlot\<close> and an empty
  one are both falsy.
\<close>

definition newEstimatedWaitMinutes :: "runtime \<Rightarrow> int \<Rightarrow> QueueEntry \<Rightarrow> rat number" where
  "newEstimatedWaitMinutes rt now prev =
     (let ts = (case timeSlot prev of None \<Rightarrow> [] | Some s \<Rightarrow> s) in
      if truthy ts \<and> truthy (queueDate prev) then
        (case parseSlotTimes rt (queueDate prev) ts of
           Some (start, end) \<Rightarrow>
             (let diffMs = num_minus start (Number now) in Math_max0 (to_minutes diffMs))
         | None \<Rightarrow> Number 0)
      else
        (let timeElapsedMinutes = to_minutes (num_minus (Number now) (joinedAt prev))
         in Math_max0 (num_minus (Number (of_int (position prev * 15))) timeElapsedMinutes)))"

text \<open>\<^verbatim>\<open>w <= 5 && w > 0\<close>; both comparisons are false on \<^verbatim>\<open>NaN\<close>.\<close>

fun in_notify_range :: "rat number \<Rightarrow> bool" where
  "in_notify_range NaN = False"
| "in_notify_range (Number w) = (w \<le> 5 \<and> 0 < w)"

text \<open>Lines 161 to 188: the updater on an entry that is there.\<close>

definition ewt_tick :: "runtime \<Rightarrow> int \<Rightarrow> QueueEntry \<Rightarrow> effect list \<times> QueueEntry" where
  "ewt_tick rt now prev =
     (let w = newEstimatedWaitMinutes rt now prev in
      if in_notify_range w \<and> \<not> notifiedAt5Min prev
      then ([Alert5Min (tableName prev) (guests prev)],
            prev\<lparr>estimatedWaitMinutes := w, notifiedAt5Min := True\<rparr>)
      else ([], prev\<lparr>estimatedWaitMinutes := w\<rparr>))"

text \<open>A run of ticks at the clock readings \<open>nows\<close>: the effects of each tick, in order.\<close>

fun run_ticks :: "runtime \<Rightarrow> int list \<Rightarrow> QueueEntry \<Rightarrow> effect list list \<times> QueueEntry" where
  "run_ticks rt [] e = ([], e)"
| "run_ticks rt (n # ns) e =
     (case ewt_tick rt n e of (fx, e1) \<Rightarrow>
        (case run_ticks rt ns e1 of (fxs, e2) \<Rightarrow> (fx # fxs, e2)))"


subsection \<open>Numbers to and from strings, and today's date\<close>

text \<open>
  \<^verbatim>\<open>parseInt(s)\<close> with no radix: leading white space is skipped, a sign is read, a
  prefix \<^verbatim>\<open>0x\<close> or \<^verbatim>\<open>0X\<close> selects radix 16, and the longest run of digits of the
  radix is the value; with no digit the result is \<^verbatim>\<open>NaN\<close>.
\<close>

definition digit_of :: "nat \<Rightarrow> nat \<Rightarrow> nat option" where
  "digit_of radix c =
     (let v = (if 48 \<le> c \<and> c \<le> 57 then Some (c - 48)
               else if 97 \<le> c \<and> c \<le> 122 then Some (c - 87)
               else if 65 \<le> c \<and> c \<le> 90 then Some (c - 55)
               else None)
      in case v of None \<Rightarrow> None | Some d \<Rightarrow> if d < radix then Some d else None)"

definition radix_value :: "nat \<Rightarrow> jsstring \<Rightarrow> nat" where
  "radix_value radix ds =
     foldl (\<lambda>a c. radix * a + (case digit_of radix c of None \<Rightarrow> 0 | Some d \<Rightarrow> d)) 0 ds"

definition parseInt :: "jsstring \<Rightarrow> int number" where
  "parseInt s =
     (let s1 = dropWhile is_ws s;
          neg = (case s1 of c # _ \<Rightarrow> c = 45 | [] \<Rightarrow> False);
          s2 = (case s1 of c # r \<Rightarrow> if c = 45 \<or> c = 43 then r else s1 | [] \<Rightarrow> s1);
          hex = (case s2 of z # x # _ \<Rightarrow> z = 48 \<and> (x = 120 \<or> x = 88) | _ \<Rightarrow> False);
          radix = (if hex then 16 else 10);
          s3 = (if hex then drop 2 s2 else s2);
          ds = takeWhile (\<lambda>c. digit_of radix c \<noteq> None) s3
      in if ds = [] then NaN
         else Number ((if neg then - 1 else 1) * int (radix_value radix ds)))"

text \<open>The decimal digits of a natural number, and \<^verbatim>\<open>padStart(w, "0")\<close>.\<close>

fun decimal :: "nat \<Rightarrow> jsstring" where
  "decimal n = (if n < 10 then [48 + n] else decimal (n div 10) @ [48 + n mod 10])"

declare decimal.simps [simp del]

definition pad0 :: "nat \<Rightarrow> jsstring \<Rightarrow> jsstring" where
  "pad0 w ds = replicate (w - length ds) 48 @ ds"

text \<open>The text of an integer in a template literal, as in \<^verbatim>\<open>`QUEUE${Date.now()}`\<close>.\<close>

definition show_int :: "int \<Rightarrow> jsstring" where
  "show_int i = (if i < 0 then 45 # decimal (nat (- i)) else decimal (nat i))"

text \<open>
  The calendar date (year, month, day) of a day number counted from 1970-01-01 in
  the proleptic Gregorian calendar, which is what \<^verbatim>\<open>toISOString\<close> prints.
\<close>

definition civil_from_days :: "int \<Rightarrow> int \<times> int \<times> int" where
  "civil_from_days z =
     (let z1 = z + 719468;
          era = z1 div 146097;
          doe = z1 mod 146097;
          yoe = (doe - doe div 1460 + doe div 36524 - doe div 146096) div 365;
          doy = doe - (365 * yoe + yoe div 4 - yoe div 100);
          mp = (5 * doy + 2) div 153;
          d = doy - (153 * mp + 2) div 5 + 1;
          m = (if mp < 10 then mp + 3 else mp - 9);
          y = yoe + era * 400 + (if m \<le> 2 then 1 else 0)
      in (y, m, d))"

text \<open>
  \<^verbatim>\<open>new Date().toISOString().split("T")[0]\<close> at the clock reading \<open>now\<close>: the date in
  UTC, as \<^verbatim>\<open>YYYY-MM-DD\<close> (with a sign and six digits of year outside 0..9999).
\<close>

definition today_iso :: "int \<Rightarrow> jsstring" where
  "today_iso now =
     (case civil_from_days (now div msPerDay) of (y, m, d) \<Rightarrow>
        (if 0 \<le> y \<and> y \<le> 9999 then pad0 4 (decimal (nat y))
         else (if y < 0 then 45 else 43) # pad0 6 (decimal (nat \<bar>y\<bar>)))
        @ [45] @ pad0 2 (decimal (nat m)) @ [45] @ pad0 2 (decimal (nat d)))"

subsection \<open>The state of the component\<close>

text \<open>
  \<^verbatim>\<open>interface PendingQueueData\<close>, the data staged by the reservation page. Its fields
  carry the prefix \<open>pending_\<close>, since a record's field names are global and
  \<^verbatim>\<open>QueueEntry\<close> has fields of the same names.
\<close>

record PendingQueueData =
  pending_queueDate :: "jsstring option"
  pending_timeSlot :: "jsstring option"
  pending_guests :: "jsstring option"
  pending_location :: "jsstring option"
  pending_segment :: "jsstring option"
  pending_tableName :: "jsstring option"
  pending_tableId :: "jsstring option"
  pending_tableLocation :: "jsstring option"
  pending_tableSegment :: "jsstring option"
  pending_tableCapacity :: "jsstring option"

record FormData =
  form_name :: jsstring
  form_contact :: jsstring

text \<open>The \<^verbatim>\<open>useState\<close> cells of the component.\<close>

record QueueState =
  showForm :: bool
  showStatus :: bool
  pendingData :: "PendingQueueData option"
  formData :: FormData
  queueDatabase :: "QueueEntry list"
  currentUserEntry :: "QueueEntry option"

text \<open>\<^verbatim>\<open>pendingData?.field\<close>: \<^verbatim>\<open>undefined\<close> when \<^verbatim>\<open>pendingData\<close> is \<^verbatim>\<open>null\<close>.\<close>

fun opt_chain :: "PendingQueueData option \<Rightarrow> (PendingQueueData \<Rightarrow> jsstring option) \<Rightarrow> jsstring option" where
  "opt_chain None f = None"
| "opt_chain (Some d) f = f d"

subsection \<open>Position, join and cancel\<close>

text \<open>\<^verbatim>\<open>calculatePosition\<close>, lines 201 to 206, on the list \<^verbatim>\<open>queueDatabase\<close>.\<close>

definition calculatePosition :: "QueueEntry list \<Rightarrow> int number \<Rightarrow> jsstring \<Rightarrow> jsstring \<Rightarrow> int" where
  "calculatePosition db g h s =
     (let sameComboEntries =
            filter (\<lambda>entry. strict_eq (guests entry) g \<and> hall entry = h \<and> segment entry = s) db
      in int (length sameComboEntries) + 1)"

text \<open>
  Lines 224 to 265 of \<^verbatim>\<open>handleJoinQueue\<close>: the entry built from the form, the staged
  data and the list. The source reads the clock three times in this synchronous
  stretch (\<^verbatim>\<open>new Date()\<close>, \<^verbatim>\<open>Date.now()\<close> twice); \<open>now\<close> is that one instant.
\<close>

definition newEntry :: "runtime \<Rightarrow> int \<Rightarrow> QueueState \<Rightarrow> QueueEntry" where
  "newEntry rt now st =
     (let pd = pendingData st;
          queueDate = or_else (opt_chain pd pending_queueDate) (today_iso now);
          timeSlot = or_else (opt_chain pd pending_timeSlot) [];
          guests = parseInt (or_else (opt_chain pd pending_guests) (js ''2''));
          hall = or_else (opt_chain pd pending_tableLocation)
                   (or_else (opt_chain pd pending_location) (js ''Any''));
          segment = or_else (opt_chain pd pending_tableSegment)
                      (or_else (opt_chain pd pending_segment) (js ''Any''));
          optimisticPosition = calculatePosition (queueDatabase st) guests hall segment;
          joinPressTime = now;
          initialWaitMinutes =
            (if truthy timeSlot \<and> truthy queueDate then
               (case parseSlotTimes rt queueDate timeSlot of
                  Some (start, end) \<Rightarrow>
                    Math_max0 (to_minutes (num_minus start (Number joinPressTime)))
                | None \<Rightarrow> Number (of_int (optimisticPosition * 15)))
             else Number (of_int (optimisticPosition * 15)))
      in \<lparr>entry_id = js ''QUEUE'' @ show_int now,
          name = form_name (formData st),
          guests = guests,
          notificationMethod = sms,
          contact = form_contact (formData st),
          hall = hall,
          segment = segment,
          position = optimisticPosition,
          estimatedWaitMinutes = initialWaitMinutes,
          joinedAt = Number joinPressTime,
          queueDate = queueDate,
          timeSlot = Some timeSlot,
          notifiedAt5Min = False,
          tableName = opt_chain pd pending_tableName,
          tableId = opt_chain pd pending_tableId,
          tableLocation = opt_chain pd pending_tableLocation,
          tableSegment = opt_chain pd pending_tableSegment,
          tableCapacity = opt_chain pd pending_tableCapacity,
          joinedAtTimestamp = Some joinPressTime\<rparr>)"

text \<open>
  \<^verbatim>\<open>handleJoinQueue\<close>. The remote call \<^verbatim>\<open>joinQueue\<close> of \<^verbatim>\<open>@/api/queue\<close> is the
  parameter \<open>joinQueue\<close>: \<open>Some created\<close> when the promise resolves, \<open>None\<close> when it
  rejects and the \<^verbatim>\<open>catch\<close> branch runs. The handler is taken as one step: nothing
  else changes the state while the call is awaited.
\<close>

definition handleJoinQueue ::
  "runtime \<Rightarrow> int \<Rightarrow> (QueueEntry \<Rightarrow> QueueEntry option) \<Rightarrow> QueueState \<Rightarrow> effect list \<times> QueueState" where
  "handleJoinQueue rt now joinQueue st =
     (if \<not> truthy (trim (form_name (formData st)))
      then ([Alert (js ''Please enter your name'')], st)
      else if \<not> truthy (trim (form_contact (formData st)))
      then ([Alert (js ''Please enter your contact details'')], st)
      else
        (let e = newEntry rt now st;
             joined = (case joinQueue e of Some created \<Rightarrow> created | None \<Rightarrow> e)
         in ([OnJoinQueue (position joined), RemoveItem (js ''pendingQueueData'')],
             st\<lparr>queueDatabase := queueDatabase st @ [joined],
                currentUserEntry := Some joined,
                showStatus := True,
                showForm := True\<rparr>)))"

text \<open>
  \<^verbatim>\<open>handleCancelQueue\<close>. \<open>confirmed\<close> is the answer to the \<^verbatim>\<open>confirm\<close> dialog;
  \<open>cancelQueueEntry\<close> tells whether the remote cancel resolved, and
  \<open>fetchQueueEntries\<close> gives the refreshed list, \<open>None\<close> when the call rejects.
\<close>

definition handleCancelQueue ::
  "int \<Rightarrow> bool \<Rightarrow> (jsstring \<Rightarrow> bool) \<Rightarrow> (jsstring \<Rightarrow> QueueEntry list option) \<Rightarrow> QueueState \<Rightarrow> QueueState" where
  "handleCancelQueue now confirmed cancelQueueEntry fetchQueueEntries st =
     (case currentUserEntry st of
        None \<Rightarrow> st
      | Some cur \<Rightarrow>
          if \<not> confirmed then st
          else
            (let dateStr = (if truthy (queueDate cur) then queueDate cur else today_iso now);
                 without = filter (\<lambda>e. entry_id e \<noteq> entry_id cur) (queueDatabase st);
                 db = (if cancelQueueEntry (entry_id cur)
                       then (case fetchQueueEntries dateStr of
                               Some refreshed \<Rightarrow> refreshed
                             | None \<Rightarrow> without)
                       else without)
             in st\<lparr>queueDatabase := db,
                   currentUserEntry := None,
                   showStatus := False,
                   showForm := False,
                   formData := \<lparr>form_name = [], form_contact = []\<rparr>,
                   pendingData := None\<rparr>))"


subsection \<open>Loading the persisted state\<close>

text \<open>
  \<^verbatim>\<open>e?.joinedAt\<close> and \<^verbatim>\<open>entry.joinedAt\<close> on a parsed value: the property of an object
  (the last of duplicate keys, as \<^verbatim>\<open>JSON.parse\<close> keeps it), \<^verbatim>\<open>undefined\<close> otherwise.
\<close>

fun get_prop :: "jsvalue \<Rightarrow> jsstring \<Rightarrow> jsvalue" where
  "get_prop (JObj props) k = (case map_of (rev props) k of None \<Rightarrow> JUndefined | Some v \<Rightarrow> v)"
| "get_prop _ k = JUndefined"

fun js_truthy :: "jsvalue \<Rightarrow> bool" where
  "js_truthy JUndefined = False"
| "js_truthy JNull = False"
| "js_truthy (JBool b) = b"
| "js_truthy (JNum n) = (n \<noteq> 0)"
| "js_truthy (JStr s) = (s \<noteq> [])"
| "js_truthy (JArr _) = True"
| "js_truthy (JObj _) = True"

text \<open>An exception that leaves a function of the component.\<close>

datatype js_error = SyntaxError | TypeError

text \<open>
  The initializer of \<^verbatim>\<open>queueDatabase\<close>, lines 98 to 112. \<open>saved\<close> is the value of
  \<^verbatim>\<open>localStorage.getItem("queueDatabase")\<close>, \<open>None\<close> for \<^verbatim>\<open>null\<close>. The \<^verbatim>\<open>try\<close> block
  turns a throwing \<^verbatim>\<open>JSON.parse\<close> into the empty list.
\<close>

definition queueDatabase_init :: "runtime \<Rightarrow> int \<Rightarrow> jsstring option \<Rightarrow> QueueEntry list" where
  "queueDatabase_init rt now saved =
     (case saved of
        None \<Rightarrow> []
      | Some s \<Rightarrow>
          if \<not> truthy s then []
          else (case JSON_parse rt s of
              None \<Rightarrow> []
            | Some parsed \<Rightarrow>
                (case parsed of
                   JArr es \<Rightarrow>
                     map (\<lambda>e. (as_entry rt e)\<lparr>joinedAt :=
                            (if js_truthy (get_prop e (js ''joinedAt''))
                             then Date_new rt (get_prop e (js ''joinedAt''))
                             else Number now)\<rparr>) es
                 | _ \<Rightarrow> [])))"

text \<open>
  The initializer of \<^verbatim>\<open>currentUserEntry\<close>, lines 114 to 122. \<open>saved\<close> is the value of
  \<^verbatim>\<open>localStorage.getItem("currentUserEntry")\<close>. There is no \<^verbatim>\<open>try\<close> block here: a
  throwing \<^verbatim>\<open>JSON.parse\<close> leaves the initializer as \<^verbatim>\<open>SyntaxError\<close>, and the assignment
  \<^verbatim>\<open>entry.joinedAt = ...\<close> throws \<^verbatim>\<open>TypeError\<close> when \<^verbatim>\<open>entry\<close> is \<^verbatim>\<open>null\<close> or, the file
  being a module and so strict code, a primitive value.
\<close>

definition currentUserEntry_init :: "runtime \<Rightarrow> jsstring option \<Rightarrow> js_error + QueueEntry option" where
  "currentUserEntry_init rt saved =
     (case saved of
        None \<Rightarrow> Inr None
      | Some s \<Rightarrow>
          if \<not> truthy s then Inr None
          else (case JSON_parse rt s of
              None \<Rightarrow> Inl SyntaxError
            | Some entry \<Rightarrow>
                (let revived = (as_entry rt entry)\<lparr>joinedAt :=
                                 Date_new rt (get_prop entry (js ''joinedAt''))\<rparr>
                 in case entry of
                      JObj _ \<Rightarrow> Inr (Some revived)
                    | JArr _ \<Rightarrow> Inr (Some revived)
                    | _ \<Rightarrow> Inl TypeError)))"


subsection \<open>Sequences of events\<close>

text \<open>
  Joins one after the other at the clock readings \<open>nows\<close>, each on the state the
  previous one left, with the same answer of the remote API.
\<close>

fun join_all ::
  "runtime \<Rightarrow> (QueueEntry \<Rightarrow> QueueEntry option) \<Rightarrow> int list \<Rightarrow> QueueState \<Rightarrow> effect list list \<times> QueueState" where
  "join_all rt joinQueue [] st = ([], st)"
| "join_all rt joinQueue (n # ns) st =
     (case handleJoinQueue rt n joinQueue st of (fx, st1) \<Rightarrow>
        (case join_all rt joinQueue ns st1 of (fxs, st2) \<Rightarrow> (fx # fxs, st2)))"




text \<open>
  Today's date for the user: the calendar date of the local time at the clock
  reading \<open>now\<close>, in the form \<^verbatim>\<open>YYYY-MM-DD\<close>.
\<close>

definition local_today :: "runtime \<Rightarrow> int \<Rightarrow> jsstring" where
  "local_today rt now = today_iso (now + LocalTZA rt now True)"

subsection \<open>A runtime and data for the examples\<close>

text \<open>
  The day number of a calendar date, counted from 1970-01-01, and a \<^verbatim>\<open>Date\<close>
  constructor that accepts the date-only strings \<^verbatim>\<open>YYYY-MM-DD\<close> and reads them as
  ECMAScript prescribes: midnight UTC of that day.
\<close>

definition days_from_civil :: "int \<Rightarrow> int \<Rightarrow> int \<Rightarrow> int" where
  "days_from_civil y m d =
     (let y1 = (if m \<le> 2 then y - 1 else y);
          era = y1 div 400;
          yoe = y1 mod 400;
          doy = (153 * (if m > 2 then m - 3 else m + 9) + 2) div 5 + d - 1;
          doe = yoe * 365 + yoe div 4 - yoe div 100 + doy
      in era * 146097 + doe - 719468)"

definition days_in_month :: "int \<Rightarrow> int \<Rightarrow> int" where
  "days_in_month y m =
     (if m = 2 then (if y mod 4 = 0 \<and> (y mod 100 \<noteq> 0 \<or> y mod 400 = 0) then 29 else 28)
      else if m = 4 \<or> m = 6 \<or> m = 9 \<or> m = 11 then 30 else 31)"

definition Date_iso_date :: "jsvalue \<Rightarrow> int number" where
  "Date_iso_date v =
     (case v of
        JStr s \<Rightarrow>
          (if length s = 10 \<and> s ! 4 = 45 \<and> s ! 7 = 45
              \<and> filter (\<lambda>c. \<not> is_digit c) (take 4 s @ take 2 (drop 5 s) @ drop 8 s) = []
           then (let y = int (digits_value (take 4 s));
                     m = int (digits_value (take 2 (drop 5 s)));
                     d = int (digits_value (drop 8 s))
                 in if 1 \<le> m \<and> m \<le> 12 \<and> 1 \<le> d \<and> d \<le> days_in_month y m
                    then Number (days_from_civil y m d * msPerDay) else NaN)
           else NaN)
      | _ \<Rightarrow> NaN)"

text \<open>
  A walk-in guest's entry for the service date 2024-01-15, with the given slot,
  position and join instant.
\<close>

definition walk_in :: "jsstring option \<Rightarrow> int \<Rightarrow> int \<Rightarrow> QueueEntry" where
  "walk_in slot pos joined =
     \<lparr>entry_id = js ''QUEUE'' @ show_int joined,
      name = js ''Asha'',
      guests = Number 2,
      notificationMethod = sms,
      contact = js ''9840012345'',
      hall = js ''Any'',
      segment = js ''Any'',
      position = pos,
      estimatedWaitMinutes = Number (of_int (pos * 15)),
      joinedAt = Number joined,
      queueDate = js ''2024-01-15'',
      timeSlot = slot,
      notifiedAt5Min = False,
      tableName = None,
      tableId = None,
      tableLocation = None,
      tableSegment = None,
      tableCapacity = None,
      joinedAtTimestamp = Some joined\<rparr>"

text \<open>
  The runtime of the examples, in a time zone that is always \<open>tza\<close> milliseconds ahead
  of UTC (no daylight saving). Its
  \<^verbatim>\<open>JSON.parse\<close> is meant on the two texts the examples use only: \<^verbatim>\<open>[]\<close> is the empty
  array, and \<^verbatim>\<open>{\<close> is not JSON and throws.
\<close>

definition example_runtime :: "int \<Rightarrow> runtime" where
  "example_runtime tza =
     \<lparr>Date_new = Date_iso_date,
      LocalTZA = (\<lambda>t isUTC. tza),
      JSON_parse = (\<lambda>s. if s = js ''[]'' then Some (JArr []) else None),
      as_entry = (\<lambda>v. walk_in None 1 0)\<rparr>"

text \<open>The slot \<^verbatim>\<open>6:00 PM \<close>(en dash)\<^verbatim>\<open> 6:30 PM\<close>.\<close>

definition slot_6pm :: jsstring where
  "slot_6pm = js ''6:00 PM '' @ [8211] @ js '' 6:30 PM''"

text \<open>A state with the given form fields and list, nothing staged and nobody joined.\<close>

definition example_state :: "jsstring \<Rightarrow> jsstring \<Rightarrow> QueueEntry list \<Rightarrow> QueueState" where
  "example_state nm ct db =
     \<lparr>showForm = False,
      showStatus = False,
      pendingData = None,
      formData = \<lparr>form_name = nm, form_contact = ct\<rparr>,
      queueDatabase = db,
      currentUserEntry = None\<rparr>"


section \<open>Properties\<close>

subsection \<open>Evaluation of the examples\<close>

lemma Date_iso_date_2024_01_15:
  "Date_iso_date (JStr (js ''2024-01-15'')) = Number 1705276800000"
  by code_simp

lemma today_iso_2024_01_15: "today_iso 1705340000000 = js ''2024-01-15''"
  by code_simp

lemma today_iso_epoch: "today_iso 0 = js ''1970-01-01''"
  by code_simp

lemma today_iso_leap_day: "today_iso 951868799999 = js ''2000-02-29''"
  by code_simp

lemma civil_days_2024_01_15:
  "days_from_civil 2024 1 15 = 19737" "civil_from_days 19737 = (2024, 1, 15)"
  by code_simp+

lemma parseSlotTimes_slot_6pm:
  "parseSlotTimes rt d slot_6pm =
     Some (setHours (LocalTZA rt) (Date_new rt (JStr d)) 18 0,
           setHours (LocalTZA rt) (Date_new rt (JStr d)) 18 30)"
  by (simp add: parseSlotTimes_def slot_6pm_def js_def truthy_def is_dash_def trim_def is_ws_def
        parsePart_def match_here_def is_digit_def digits_value_def toUpperCase_def Let_def)

lemma parseSlotTimes_6_to_7: "parseSlotTimes rt d (js ''6 PM - 7 PM'') = None"
  by (simp add: parseSlotTimes_def js_def truthy_def is_dash_def trim_def is_ws_def parsePart_def
        match_here_def is_digit_def Let_def)

lemma truthy_6_to_7: "truthy (js ''6 PM - 7 PM'')"
  by (simp add: truthy_def js_def)

subsection \<open>The tick, unfolded\<close>

lemma newEstimatedWaitMinutes_unfold:
  "newEstimatedWaitMinutes rt now prev =
     (if truthy (case timeSlot prev of None \<Rightarrow> [] | Some s \<Rightarrow> s) \<and> truthy (queueDate prev)
      then (case parseSlotTimes rt (queueDate prev) (case timeSlot prev of None \<Rightarrow> [] | Some s \<Rightarrow> s) of
              Some (start, end) \<Rightarrow> Math_max0 (to_minutes (num_minus start (Number now)))
            | None \<Rightarrow> Number 0)
      else Math_max0 (num_minus (Number (of_int (position prev * 15)))
             (to_minutes (num_minus (Number now) (joinedAt prev)))))"
  by (simp add: newEstimatedWaitMinutes_def Let_def split: option.split prod.split)

lemma wait_ignores_tick_fields:
  "newEstimatedWaitMinutes rt n (e\<lparr>estimatedWaitMinutes := w, notifiedAt5Min := b\<rparr>) =
     newEstimatedWaitMinutes rt n e"
  "newEstimatedWaitMinutes rt n (e\<lparr>estimatedWaitMinutes := w\<rparr>) = newEstimatedWaitMinutes rt n e"
  by (simp_all add: newEstimatedWaitMinutes_def Let_def cong: if_cong option.case_cong)

lemma ewt_tick_cases:
  "ewt_tick rt n e =
     (if in_notify_range (newEstimatedWaitMinutes rt n e) \<and> \<not> notifiedAt5Min e
      then ([Alert5Min (tableName e) (guests e)],
            e\<lparr>estimatedWaitMinutes := newEstimatedWaitMinutes rt n e, notifiedAt5Min := True\<rparr>)
      else ([], e\<lparr>estimatedWaitMinutes := newEstimatedWaitMinutes rt n e\<rparr>))"
  by (simp add: ewt_tick_def Let_def)

lemma wait_after_tick:
  "newEstimatedWaitMinutes rt n (snd (ewt_tick rt m e)) = newEstimatedWaitMinutes rt n e"
  by (simp add: ewt_tick_cases wait_ignores_tick_fields)

lemma tick_keeps_alert_fields:
  "tableName (snd (ewt_tick rt m e)) = tableName e"
  "guests (snd (ewt_tick rt m e)) = guests e"
  by (simp_all add: ewt_tick_cases)

lemma run_ticks_Cons:
  "fst (run_ticks rt (n # ns) e) =
     fst (ewt_tick rt n e) # fst (run_ticks rt ns (snd (ewt_tick rt n e)))"
  "snd (run_ticks rt (n # ns) e) = snd (run_ticks rt ns (snd (ewt_tick rt n e)))"
  by (simp_all split: prod.splits)

lemma run_ticks_append:
  "fst (run_ticks rt (xs @ ys) e) =
     fst (run_ticks rt xs e) @ fst (run_ticks rt ys (snd (run_ticks rt xs e)))"
  "snd (run_ticks rt (xs @ ys) e) = snd (run_ticks rt ys (snd (run_ticks rt xs e)))"
  by (induction xs arbitrary: e) (simp_all add: run_ticks_Cons del: run_ticks.simps(2))

subsection \<open>The wait is never negative\<close>





lemma queueDate_newEntry:
  "queueDate (newEntry rt now st) = or_else (opt_chain (pendingData st) pending_queueDate) (today_iso now)"
  by (simp add: newEntry_def Let_def)







text \<open>
  The start is valid for every date well inside the range of \<^verbatim>\<open>Date\<close>, every offset
  of at most a day and every hour and minute below a thousand million; the hours and
  minutes of a clock are far below.
\<close>

lemma setHours_valid:
  assumes "\<bar>t\<bar> \<le> 4000000000000000" and "\<forall>x b. \<bar>tza x b\<bar> \<le> msPerDay"
    and "h \<le> 1000000000" and "m \<le> 1000000000"
  shows "\<exists>u. setHours tza (Number t) h m = Number u"
proof -
  let ?l = "t + tza t True"
  let ?d = "(?l div msPerDay) * msPerDay + (int h * 3600000 + int m * 60000)"
  have z1: "\<bar>tza t True\<bar> \<le> 86400000" and z2: "\<bar>tza ?d False\<bar> \<le> 86400000"
    using assms(2) by (simp_all add: msPerDay_def)
  have "?l = (?l div msPerDay) * msPerDay + ?l mod msPerDay" by simp
  moreover have "0 \<le> ?l mod msPerDay" "?l mod msPerDay < 86400000"
    by (simp_all add: msPerDay_def)
  ultimately have day: "(?l div msPerDay) * msPerDay \<le> ?l" "?l - 86400000 < (?l div msPerDay) * msPerDay"
    by linarith+
  have hm: "0 \<le> int h * 3600000 + int m * 60000" "int h * 3600000 + int m * 60000 \<le> 3660000000000000"
    using assms(3,4) by simp_all
  have "\<bar>?d - tza ?d False\<bar> \<le> 8640000000000000"
    using day hm z1 z2 assms(1) by linarith
  then show ?thesis by (simp add: Let_def TimeClip_def)
qed

lemma parsePart_valid:
  assumes "Date_new rt (JStr d) = Number t" and "\<bar>t\<bar> \<le> 4000000000000000"
    and "\<forall>x b. \<bar>LocalTZA rt x b\<bar> \<le> msPerDay"
    and "match_time p = Some (m1, m2, m3)"
    and "digits_value m1 \<le> 999999000" and "digits_value m2 \<le> 1000000000"
  shows "\<exists>u. parsePart rt d p = Some (Number u)"
proof -
  let ?h0 = "digits_value m1"
  let ?h1 = "if toUpperCase m3 = js ''PM'' \<and> ?h0 < 12 then ?h0 + 12 else ?h0"
  let ?h = "if toUpperCase m3 = js ''AM'' \<and> ?h1 = 12 then 0 else ?h1"
  have "?h \<le> 1000000000" using assms(5) by simp
  from setHours_valid [OF assms(2,3) this assms(6)]
  obtain u where "setHours (LocalTZA rt) (Number t) ?h (digits_value m2) = Number u" by blast
  then show ?thesis
    using assms(1,4) by (simp add: parsePart_def Let_def)
qed

subsection \<open>The position-based estimate\<close>

text \<open>
  Claim C4. When the entry has no time slot (the field is absent or empty), a tick
  sets the estimated wait to the larger of \<open>0\<close> and \<open>position * 15\<close> minus the minutes
  from the join instant to the clock reading of the tick.
\<close>

theorem C4_position_based_wait:
  assumes "\<not> truthy_opt (timeSlot prev)" and "joinedAt prev = Number joined"
  shows "estimatedWaitMinutes (snd (ewt_tick rt now prev)) =
           Number (max 0 (of_int (position prev) * 15 - of_int (now - joined) / (1000 * 60)))"
proof -
  have ts: "(case timeSlot prev of None \<Rightarrow> [] | Some s \<Rightarrow> s) = []"
    using assms(1) by (cases "timeSlot prev") (simp_all add: truthy_def)
  have "newEstimatedWaitMinutes rt now prev =
          Number (max 0 (of_int (position prev) * 15 - of_int (now - joined) / (1000 * 60)))"
    by (simp add: newEstimatedWaitMinutes_def ts truthy_def assms(2))
  then show ?thesis
    by (simp add: ewt_tick_def Let_def)
qed

text \<open>
  The example of the claim: position 3 and ten minutes after the join give 35
  minutes.
\<close>

theorem C4_position_based_wait_example:
  "estimatedWaitMinutes (snd (ewt_tick (example_runtime 0) (1705340000000 + 10 * 60000)
      (walk_in None 3 1705340000000))) = Number 35"
  using C4_position_based_wait [of "walk_in None 3 1705340000000" 1705340000000
      "example_runtime 0" "1705340000000 + 10 * 60000"]
  by (simp add: walk_in_def)

subsection \<open>The five-minute notice\<close>

lemma ticks_when_notified:
  "notifiedAt5Min e \<Longrightarrow>
     fst (run_ticks rt ns e) = replicate (length ns) [] \<and> notifiedAt5Min (snd (run_ticks rt ns e))"
proof (induction ns arbitrary: e)
  case Nil
  then show ?case by simp
next
  case (Cons n ns)
  have "notifiedAt5Min (snd (ewt_tick rt n e))" and "fst (ewt_tick rt n e) = []"
    using Cons.prems by (simp_all add: ewt_tick_cases)
  with Cons.IH [of "snd (ewt_tick rt n e)"] show ?case
    by (simp add: run_ticks_Cons del: run_ticks.simps(2))
qed

lemma ticks_out_of_range:
  "\<forall>n \<in> set ns. \<not> in_notify_range (newEstimatedWaitMinutes rt n e) \<Longrightarrow>
     fst (run_ticks rt ns e) = replicate (length ns) []
     \<and> notifiedAt5Min (snd (run_ticks rt ns e)) = notifiedAt5Min e
     \<and> tableName (snd (run_ticks rt ns e)) = tableName e
     \<and> guests (snd (run_ticks rt ns e)) = guests e
     \<and> (\<forall>m. newEstimatedWaitMinutes rt m (snd (run_ticks rt ns e)) = newEstimatedWaitMinutes rt m e)"
proof (induction ns arbitrary: e)
  case Nil
  then show ?case by simp
next
  case (Cons n ns)
  let ?e1 = "snd (ewt_tick rt n e)"
  have quiet: "fst (ewt_tick rt n e) = []" and flag: "notifiedAt5Min ?e1 = notifiedAt5Min e"
    using Cons.prems by (simp_all add: ewt_tick_cases)
  have "\<forall>k \<in> set ns. \<not> in_notify_range (newEstimatedWaitMinutes rt k ?e1)"
    using Cons.prems by (simp add: wait_after_tick)
  from Cons.IH [OF this] quiet flag show ?case
    by (simp add: run_ticks_Cons wait_after_tick tick_keeps_alert_fields del: run_ticks.simps(2))
qed

text \<open>
  Claim C5. Take any run of ticks and an entry whose notice flag is false. If \<open>n\<close> is
  the first tick whose wait lies in \<open>(0, 5]\<close> minutes (the ticks \<open>before\<close> it are
  outside that range), then that tick fires exactly one alert, no tick before or
  after it fires any, whatever the waits of the ticks \<open>after\<close> are, and the flag is
  true at the end.
\<close>

theorem C5_notification_fires_once:
  assumes "\<not> notifiedAt5Min e"
    and "\<forall>m \<in> set before. \<not> in_notify_range (newEstimatedWaitMinutes rt m e)"
    and "in_notify_range (newEstimatedWaitMinutes rt n e)"
  shows "fst (run_ticks rt (before @ n # after) e) =
           replicate (length before) [] @ [Alert5Min (tableName e) (guests e)] # replicate (length after) []
         \<and> notifiedAt5Min (snd (run_ticks rt (before @ n # after) e))"
proof -
  let ?e1 = "snd (run_ticks rt before e)"
  let ?e2 = "snd (ewt_tick rt n ?e1)"
  from ticks_out_of_range [OF assms(2)]
  have b: "fst (run_ticks rt before e) = replicate (length before) []"
    and f1: "\<not> notifiedAt5Min ?e1"
    and t1: "tableName ?e1 = tableName e" and g1: "guests ?e1 = guests e"
    and w1: "newEstimatedWaitMinutes rt n ?e1 = newEstimatedWaitMinutes rt n e"
    using assms(1) by simp_all
  have fire: "fst (ewt_tick rt n ?e1) = [Alert5Min (tableName e) (guests e)]"
    and f2: "notifiedAt5Min ?e2"
    using f1 w1 t1 g1 assms(3) by (simp_all add: ewt_tick_cases)
  from ticks_when_notified [OF f2, of rt after]
  have a: "fst (run_ticks rt after ?e2) = replicate (length after) []"
    and f3: "notifiedAt5Min (snd (run_ticks rt after ?e2))"
    by simp_all
  show ?thesis
    using b fire a f3 by (simp add: run_ticks_append run_ticks_Cons del: run_ticks.simps(2))
qed

text \<open>
  An instance: position 3 and no slot, so 45 minutes of wait at the join. The ticks
  are 10 minutes later (35 left), 40 minutes later (5 left: the alert), one second
  after that (still in range: no alert) and 45 minutes later (0 left).
\<close>

theorem C5_notification_fires_once_example:
  "fst (run_ticks (example_runtime 0)
          ([1705340000000 + 10 * 60000] @ (1705340000000 + 40 * 60000)
             # [1705340000000 + 40 * 60000 + 1000, 1705340000000 + 45 * 60000])
          (walk_in None 3 1705340000000))
     = [[], [Alert5Min None (Number 2)], [], []]"
  using C5_notification_fires_once [of "walk_in None 3 1705340000000"
      "[1705340000000 + 10 * 60000]" "example_runtime 0" "1705340000000 + 40 * 60000"
      "[1705340000000 + 40 * 60000 + 1000, 1705340000000 + 45 * 60000]"]
  by (simp add: walk_in_def newEstimatedWaitMinutes_def truthy_def)

subsection \<open>The time expression\<close>

text \<open>
  \<open>match_here\<close> takes the longest runs, where the regular expression engine of the
  source backtracks. The two agree: whenever the text at the start of a string has
  the shape of the expression (digits, a colon, digits, white space, one of
  \<^verbatim>\<open>AM\<close> and \<^verbatim>\<open>PM\<close> in either case), in whatever way, \<open>match_here\<close> returns these very
  groups, and it returns groups only for a text of that shape.
\<close>

lemma match_here_complete:
  assumes "d1 \<noteq> []" and "\<forall>c \<in> set d1. is_digit c"
    and "d2 \<noteq> []" and "\<forall>c \<in> set d2. is_digit c"
    and "\<forall>c \<in> set ws. is_ws c"
    and "a = 65 \<or> a = 97 \<or> a = 80 \<or> a = 112" and "m = 77 \<or> m = 109"
  shows "match_here (d1 @ 58 # d2 @ ws @ a # m # rest) = Some (d1, d2, [a, m])"
proof -
  have nd: "\<not> is_digit 58" "\<not> is_digit a" and na: "\<not> is_ws a"
    using assms(6) by (auto simp: is_digit_def is_ws_def)
  have wsd: "\<forall>c \<in> set ws. \<not> is_digit c"
    using assms(5) by (auto simp: is_digit_def is_ws_def)
  have t1: "takeWhile is_digit (d1 @ 58 # d2 @ ws @ a # m # rest) = d1"
    and r1: "dropWhile is_digit (d1 @ 58 # d2 @ ws @ a # m # rest) = 58 # d2 @ ws @ a # m # rest"
    using assms(2) nd(1) by (simp_all add: takeWhile_append2 dropWhile_append2)
  have tail: "takeWhile is_digit (ws @ a # m # rest) = []"
    "dropWhile is_digit (ws @ a # m # rest) = ws @ a # m # rest"
    using wsd nd(2) by (cases ws; simp)+
  have t2: "takeWhile is_digit (d2 @ ws @ a # m # rest) = d2"
    and r2: "dropWhile is_digit (d2 @ ws @ a # m # rest) = ws @ a # m # rest"
    using assms(4) tail by (simp_all add: takeWhile_append2 dropWhile_append2)
  have r3: "dropWhile is_ws (ws @ a # m # rest) = a # m # rest"
    using assms(5) na by (simp add: dropWhile_append2)
  show ?thesis
    using assms(1,3,6,7) by (simp add: match_here_def t1 r1 t2 r2 r3)
qed

lemma match_here_sound:
  assumes "match_here s = Some (d1, d2, g)"
  shows "\<exists>ws a m rest. s = d1 @ 58 # d2 @ ws @ a # m # rest \<and> g = [a, m]
           \<and> d1 \<noteq> [] \<and> (\<forall>c \<in> set d1. is_digit c) \<and> d2 \<noteq> [] \<and> (\<forall>c \<in> set d2. is_digit c)
           \<and> (\<forall>c \<in> set ws. is_ws c)
           \<and> (a = 65 \<or> a = 97 \<or> a = 80 \<or> a = 112) \<and> (m = 77 \<or> m = 109)"
proof -
  let ?r1 = "dropWhile is_digit s"
  from assms have d1: "d1 = takeWhile is_digit s" and ne1: "d1 \<noteq> []"
    by (auto simp: match_here_def Let_def split: if_splits list.splits)
  from assms obtain r where r: "?r1 = 58 # r"
    by (auto simp: match_here_def Let_def split: if_splits list.splits)
  from assms r have d2: "d2 = takeWhile is_digit r" and ne2: "d2 \<noteq> []"
    by (auto simp: match_here_def Let_def split: if_splits list.splits)
  from assms r obtain a m rest where tl: "dropWhile is_ws (dropWhile is_digit r) = a # m # rest"
    and g: "g = [a, m]" and am: "a = 65 \<or> a = 97 \<or> a = 80 \<or> a = 112" "m = 77 \<or> m = 109"
    by (auto simp: match_here_def Let_def split: if_splits list.splits)
  let ?ws = "takeWhile is_ws (dropWhile is_digit r)"
  have "s = d1 @ ?r1" by (simp add: d1)
  also have "?r1 = 58 # d2 @ dropWhile is_digit r" by (simp add: r d2)
  also have "dropWhile is_digit r = ?ws @ a # m # rest"
    using tl takeWhile_dropWhile_id [of is_ws "dropWhile is_digit r"] by simp
  finally have "s = d1 @ 58 # d2 @ ?ws @ a # m # rest" .
  moreover have "\<forall>c \<in> set d1. is_digit c" "\<forall>c \<in> set d2. is_digit c" "\<forall>c \<in> set ?ws. is_ws c"
    by (auto simp: d1 d2 dest: set_takeWhileD)
  ultimately show ?thesis using g am ne1 ne2 by blast
qed

subsection \<open>\<^verbatim>\<open>parseInt\<close> on the groups of the time expression\<close>

text \<open>
  \<^verbatim>\<open>parsePart\<close> applies \<^verbatim>\<open>parseInt\<close> to the groups matched by \<^verbatim>\<open>\d+\<close>. On a non-empty
  run of decimal digits \<^verbatim>\<open>parseInt\<close> is \<open>digits_value\<close>, which is what \<open>parsePart\<close>
  uses here.
\<close>

lemma digit_of_decimal: "is_digit c \<Longrightarrow> digit_of 10 c = Some (c - 48)"
  by (auto simp: is_digit_def digit_of_def)

lemma radix_value_decimal:
  "\<forall>c \<in> set ds. is_digit c \<Longrightarrow>
     foldl (\<lambda>a c. 10 * a + (case digit_of 10 c of None \<Rightarrow> 0 | Some d \<Rightarrow> d)) a0 ds =
     foldl (\<lambda>a c. 10 * a + (c - 48)) a0 ds"
  by (induction ds arbitrary: a0) (simp_all add: digit_of_decimal)

lemma parseInt_digit_run:
  assumes "ds \<noteq> []" and "\<forall>c \<in> set ds. is_digit c"
  shows "parseInt ds = Number (int (digits_value ds))"
proof -
  obtain c cs where ds: "ds = c # cs" using assms(1) by (cases ds) auto
  have c: "is_digit c" using assms(2) ds by simp
  then have nows: "\<not> is_ws c" and nosign: "c \<noteq> 45" "c \<noteq> 43"
    by (auto simp: is_digit_def is_ws_def)
  have nohex: "\<not> (case ds of z # x # _ \<Rightarrow> z = 48 \<and> (x = 120 \<or> x = 88) | _ \<Rightarrow> False)"
    using assms(2) by (auto simp: is_digit_def split: list.splits)
  have all: "takeWhile (\<lambda>c. digit_of 10 c \<noteq> None) ds = ds"
    using assms(2) by (simp add: digit_of_decimal)
  have "radix_value 10 ds = digits_value ds"
    using radix_value_decimal [OF assms(2)] by (simp add: radix_value_def digits_value_def)
  with nows nosign nohex all assms(1) show ?thesis
    by (simp add: parseInt_def ds Let_def)
qed

lemma match_here_groups:
  assumes "match_here p = Some (m1, m2, m3)"
  shows "m1 \<noteq> [] \<and> (\<forall>c \<in> set m1. is_digit c) \<and> m2 \<noteq> [] \<and> (\<forall>c \<in> set m2. is_digit c)"
  using assms
  by (auto simp: match_here_def Let_def split: if_splits list.splits dest: set_takeWhileD)

lemma match_time_groups:
  "match_time p = Some (m1, m2, m3) \<Longrightarrow>
     m1 \<noteq> [] \<and> (\<forall>c \<in> set m1. is_digit c) \<and> m2 \<noteq> [] \<and> (\<forall>c \<in> set m2. is_digit c)"
proof (induction p)
  case Nil
  then show ?case by simp
next
  case (Cons c cs)
  show ?case
  proof (cases "match_here (c # cs)")
    case None
    with Cons show ?thesis by simp
  next
    case (Some g)
    with Cons.prems have "match_here (c # cs) = Some (m1, m2, m3)" by simp
    then show ?thesis by (rule match_here_groups)
  qed
qed

lemma match_time_parseInt:
  assumes "match_time p = Some (m1, m2, m3)"
  shows "parseInt m1 = Number (int (digits_value m1)) \<and> parseInt m2 = Number (int (digits_value m2))"
  using match_time_groups [OF assms] by (simp add: parseInt_digit_run)

subsection \<open>Position assignment and sequential joins\<close>

lemma triple_newEntry:
  "guests (newEntry rt now st) = parseInt (or_else (opt_chain (pendingData st) pending_guests) (js ''2''))"
  "hall (newEntry rt now st) =
     or_else (opt_chain (pendingData st) pending_tableLocation)
       (or_else (opt_chain (pendingData st) pending_location) (js ''Any''))"
  "segment (newEntry rt now st) =
     or_else (opt_chain (pendingData st) pending_tableSegment)
       (or_else (opt_chain (pendingData st) pending_segment) (js ''Any''))"
  "position (newEntry rt now st) =
     calculatePosition (queueDatabase st) (guests (newEntry rt now st))
       (hall (newEntry rt now st)) (segment (newEntry rt now st))"
  by (simp_all add: newEntry_def Let_def)

lemma calculatePosition_count:
  "calculatePosition db (Number g) h s =
     int (length (filter (\<lambda>e. guests e = Number g \<and> hall e = h \<and> segment e = s) db)) + 1"
proof -
  have "strict_eq x (Number g) = (x = Number g)" for x :: "int number"
    by (cases x) auto
  then show ?thesis by (simp add: calculatePosition_def)
qed

lemma local_join_state:
  assumes "truthy (trim (form_name (formData st)))" and "truthy (trim (form_contact (formData st)))"
  shows "snd (handleJoinQueue rt now (\<lambda>e. None) st) =
           st\<lparr>queueDatabase := queueDatabase st @ [newEntry rt now st],
              currentUserEntry := Some (newEntry rt now st),
              showStatus := True, showForm := True\<rparr>"
  using assms by (simp add: handleJoinQueue_def Let_def)

lemma join_all_Cons:
  "snd (join_all rt jq (n # ns) st) = snd (join_all rt jq ns (snd (handleJoinQueue rt n jq st)))"
  by (simp split: prod.splits)

lemma local_joins_positions:
  assumes "truthy (trim (form_name (formData st)))" and "truthy (trim (form_contact (formData st)))"
    and "guests (newEntry rt t st) = Number g"
    and "hall (newEntry rt t st) = h" and "segment (newEntry rt t st) = s"
    and "c = int (length (filter (\<lambda>e. guests e = Number g \<and> hall e = h \<and> segment e = s) (queueDatabase st)))"
  shows "\<exists>es. queueDatabase (snd (join_all rt (\<lambda>e. None) nows st)) = queueDatabase st @ es
            \<and> map position es = [c + 1 .. c + int (length nows)]"
  using assms
proof (induction nows arbitrary: st c)
  case Nil
  then show ?case by simp
next
  case (Cons n ns)
  let ?e = "newEntry rt n st"
  let ?st1 = "snd (handleJoinQueue rt n (\<lambda>e. None) st)"
  have st1: "?st1 = st\<lparr>queueDatabase := queueDatabase st @ [?e], currentUserEntry := Some ?e,
                         showStatus := True, showForm := True\<rparr>"
    using Cons.prems(1,2) by (rule local_join_state)
  have trip: "guests ?e = Number g" "hall ?e = h" "segment ?e = s"
    using Cons.prems(3,4,5) by (simp_all add: triple_newEntry)
  have pos: "position ?e = c + 1"
    using trip Cons.prems(6) by (simp add: triple_newEntry(4) calculatePosition_count)
  have "\<exists>es. queueDatabase (snd (join_all rt (\<lambda>e. None) ns ?st1)) = queueDatabase ?st1 @ es
            \<and> map position es = [(c + 1) + 1 .. (c + 1) + int (length ns)]"
  proof (rule Cons.IH)
    show "truthy (trim (form_name (formData ?st1)))" "truthy (trim (form_contact (formData ?st1)))"
      using Cons.prems(1,2) by (simp_all add: st1)
    show "guests (newEntry rt t ?st1) = Number g" "hall (newEntry rt t ?st1) = h"
      "segment (newEntry rt t ?st1) = s"
      using Cons.prems(3,4,5) by (simp_all add: st1 triple_newEntry)
    show "c + 1 = int (length (filter (\<lambda>e. guests e = Number g \<and> hall e = h \<and> segment e = s)
                     (queueDatabase ?st1)))"
      using trip Cons.prems(6) by (simp add: st1)
  qed
  then obtain es where es: "queueDatabase (snd (join_all rt (\<lambda>e. None) ns ?st1)) = queueDatabase ?st1 @ es"
    and ps: "map position es = [(c + 1) + 1 .. (c + 1) + int (length ns)]"
    by blast
  have "queueDatabase (snd (join_all rt (\<lambda>e. None) (n # ns) st)) = queueDatabase st @ (?e # es)"
    using es by (simp add: join_all_Cons st1 del: join_all.simps(2))
  moreover have "map position (?e # es) = [c + 1 .. c + int (length (n # ns))]"
  proof -
    have "c + 1 \<le> c + int (length (n # ns))" by simp
    from upto_rec1 [OF this]
    have "[c + 1 .. c + int (length (n # ns))] = (c + 1) # [(c + 1) + 1 .. (c + 1) + int (length ns)]"
      by (simp add: algebra_simps)
    with pos ps show ?thesis by simp
  qed
  ultimately show ?case by blast
qed

lemma parseInt_2: "parseInt (js ''2'') = Number 2"
  by (simp add: parseInt_def js_def is_ws_def digit_of_def radix_value_def)

text \<open>
  Claim C1. For every list and every triple whose guest count is a number, the
  position that \<^verbatim>\<open>calculatePosition\<close> returns is the number of entries of the list
  whose guests, hall and segment equal the triple, plus one, and this is the position
  of the entry a join builds. Consequently local joins one after the other (the
  remote call failing, the form filled in, the staged triple unchanged) extend the
  list by entries whose positions are \<open>c + 1, ..., c + N\<close> in join order, where \<open>c\<close>
  counts the entries with the triple before the first join: \<open>1, ..., N\<close> when there
  are none.
\<close>

theorem C1_position_assignment:
  assumes "truthy (trim (form_name (formData st)))" and "truthy (trim (form_contact (formData st)))"
    and "guests (newEntry rt t st) = Number g"
    and "hall (newEntry rt t st) = h" and "segment (newEntry rt t st) = s"
    and "c = int (length (filter (\<lambda>e. guests e = Number g \<and> hall e = h \<and> segment e = s) (queueDatabase st)))"
  shows "calculatePosition db (Number g') h' s' =
           int (length (filter (\<lambda>e. guests e = Number g' \<and> hall e = h' \<and> segment e = s') db)) + 1
     \<and> position (newEntry rt t st) = c + 1
     \<and> (\<exists>es. queueDatabase (snd (join_all rt (\<lambda>e. None) nows st)) = queueDatabase st @ es
            \<and> map position es = [c + 1 .. c + int (length nows)])"
  using local_joins_positions [OF assms, of nows] assms(3,4,5,6)
  by (simp add: calculatePosition_count triple_newEntry(4))

text \<open>An instance: three local joins into an empty list get the positions 1, 2, 3.\<close>

theorem C1_position_assignment_example:
  "map position (queueDatabase (snd (join_all (example_runtime 0) (\<lambda>e. None)
      [1705340000000, 1705340060000, 1705340120000]
      (example_state (js ''Asha'') (js ''9840012345'') [])))) = [1, 2, 3]"
proof -
  let ?st = "example_state (js ''Asha'') (js ''9840012345'') []"
  have v: "truthy (trim (form_name (formData ?st)))" "truthy (trim (form_contact (formData ?st)))"
    by (simp_all add: example_state_def trim_def is_ws_def js_def truthy_def)
  have g: "guests (newEntry (example_runtime 0) 0 ?st) = Number 2"
    and h: "hall (newEntry (example_runtime 0) 0 ?st) = js ''Any''"
    and s: "segment (newEntry (example_runtime 0) 0 ?st) = js ''Any''"
    by (simp_all add: triple_newEntry example_state_def parseInt_2)
  have c: "0 = int (length (filter (\<lambda>e. guests e = Number 2 \<and> hall e = js ''Any'' \<and> segment e = js ''Any'')
                 (queueDatabase ?st)))"
    by (simp add: example_state_def)
  from C1_position_assignment [where nows = "[1705340000000, 1705340060000, 1705340120000]",
      OF v g h s c]
  obtain es where "queueDatabase (snd (join_all (example_runtime 0) (\<lambda>e. None)
      [1705340000000, 1705340060000, 1705340120000] ?st)) = queueDatabase ?st @ es"
    and "map position es = [0 + 1 .. 0 + int (length [1705340000000, 1705340060000, 1705340120000 :: int])]"
    by blast
  then show ?thesis
    by (simp add: example_state_def upto_rec1)
qed

subsection \<open>Defaults of a join\<close>

text \<open>
  The UTC date and the local date of an instant are the same when adding the offset
  does not leave the UTC day.
\<close>

lemma same_day:
  assumes "0 \<le> now mod msPerDay + z" and "now mod msPerDay + z < msPerDay"
  shows "(now + z) div msPerDay = now div msPerDay"
proof -
  have "now + z = now div msPerDay * msPerDay + (now mod msPerDay + z)" by simp
  then have "(now + z) div msPerDay = (now div msPerDay * msPerDay + (now mod msPerDay + z)) div msPerDay"
    by simp
  also have "\<dots> = now div msPerDay + (now mod msPerDay + z) div msPerDay"
    by (rule div_mult_self3) (simp add: msPerDay_def)
  also have "(now mod msPerDay + z) div msPerDay = 0"
    using assms by (simp add: div_pos_pos_trivial)
  finally show ?thesis by simp
qed

lemma local_today_same_day:
  assumes "0 \<le> now mod msPerDay + LocalTZA rt now True"
    and "now mod msPerDay + LocalTZA rt now True < msPerDay"
  shows "local_today rt now = today_iso now"
  using same_day [OF assms] by (simp add: local_today_def today_iso_def)

lemma today_iso_evening_west:
  "today_iso 1705280400000 = js ''2024-01-15''"
  "today_iso (1705280400000 + - 18000000) = js ''2024-01-14''"
  by code_simp+

text \<open>
  Claim C10 states that with nothing staged the service date of the new entry is
  today's date. The source takes \<^verbatim>\<open>new Date().toISOString().split("T")[0]\<close>, the
  calendar date in UTC, as it does wherever it needs a date. In the time zone
  UTC-05:00 at 8 PM on 14 January 2024 (1 AM on 15 January in UTC) the entry gets the
  service date 2024-01-15, and today is 2024-01-14.
\<close>

theorem C10_service_date_counterexample:
  "queueDate (newEntry (example_runtime (- 18000000)) 1705280400000
       (example_state (js ''Asha'') (js ''9840012345'') []))
     \<noteq> local_today (example_runtime (- 18000000)) 1705280400000"
proof -
  have "queueDate (newEntry (example_runtime (- 18000000)) 1705280400000
       (example_state (js ''Asha'') (js ''9840012345'') [])) = js ''2024-01-15''"
    by (simp add: queueDate_newEntry example_state_def today_iso_evening_west(1))
  moreover have "local_today (example_runtime (- 18000000)) 1705280400000 = js ''2024-01-14''"
    by (simp only: local_today_def example_runtime_def runtime.simps today_iso_evening_west(2))
  ultimately show ?thesis by (simp add: js_def)
qed

text \<open>
  Claim C10, as amended. Let \<open>e\<close> be the entry a join builds and \<open>db\<close> the list. Each
  staged field that is absent (or all of them, when nothing is staged) gets its
  default: guest count 2, hall \<^verbatim>\<open>Any\<close>, segment \<^verbatim>\<open>Any\<close>, an empty time slot, and as
  service date the UTC calendar date of the clock reading, which is today's date for
  the user whenever local time and UTC are on the same calendar day; the channel is
  always \<^verbatim>\<open>sms\<close>. The position is the number of entries of \<open>db\<close> with the guests,
  hall and segment of \<open>e\<close>, plus one: with nothing staged, the number of entries with
  2 guests, hall \<^verbatim>\<open>Any\<close> and segment \<^verbatim>\<open>Any\<close>, plus one. With no slot the wait is the
  position times 15. With the form filled in, \<open>e\<close> is what the join hands to the
  remote API and keeps when that call fails.
\<close>

theorem C10_join_defaults:
  assumes "e = newEntry rt now st" and "pd = pendingData st" and "db = queueDatabase st"
  shows "(opt_chain pd pending_guests = None \<longrightarrow> guests e = Number 2)
     \<and> (opt_chain pd pending_tableLocation = None \<and> opt_chain pd pending_location = None \<longrightarrow>
          hall e = js ''Any'')
     \<and> (opt_chain pd pending_tableSegment = None \<and> opt_chain pd pending_segment = None \<longrightarrow>
          segment e = js ''Any'')
     \<and> (opt_chain pd pending_queueDate = None \<longrightarrow>
          queueDate e = today_iso now
          \<and> (0 \<le> now mod msPerDay + LocalTZA rt now True
               \<and> now mod msPerDay + LocalTZA rt now True < msPerDay \<longrightarrow>
              queueDate e = local_today rt now))
     \<and> (opt_chain pd pending_timeSlot = None \<longrightarrow>
          timeSlot e = Some [] \<and> estimatedWaitMinutes e = Number (of_int (position e) * 15))
     \<and> notificationMethod e = sms
     \<and> (\<forall>g. guests e = Number g \<longrightarrow>
          position e =
            int (length (filter (\<lambda>x. guests x = Number g \<and> hall x = hall e \<and> segment x = segment e) db)) + 1)
     \<and> (pd = None \<longrightarrow>
          position e =
            int (length (filter (\<lambda>x. guests x = Number 2 \<and> hall x = js ''Any'' \<and> segment x = js ''Any'') db)) + 1
          \<and> estimatedWaitMinutes e =
            Number ((of_int (int (length (filter
               (\<lambda>x. guests x = Number 2 \<and> hall x = js ''Any'' \<and> segment x = js ''Any'') db))) + 1) * 15))
     \<and> (truthy (trim (form_name (formData st))) \<and> truthy (trim (form_contact (formData st))) \<longrightarrow>
          currentUserEntry (snd (handleJoinQueue rt now joinQueue st)) =
            Some (case joinQueue e of Some created \<Rightarrow> created | None \<Rightarrow> e))"
proof -
  have slot: "timeSlot e = Some (or_else (opt_chain pd pending_timeSlot) [])"
    and wait: "estimatedWaitMinutes e =
      (if truthy (or_else (opt_chain pd pending_timeSlot) []) \<and> truthy (queueDate e) then
         (case parseSlotTimes rt (queueDate e) (or_else (opt_chain pd pending_timeSlot) []) of
            Some (start, end) \<Rightarrow> Math_max0 (to_minutes (num_minus start (Number now)))
          | None \<Rightarrow> Number (of_int (position e * 15)))
       else Number (of_int (position e * 15)))"
    and channel: "notificationMethod e = sms"
    unfolding assms by (simp_all add: newEntry_def Let_def cong: if_cong option.case_cong)
  have pos: "position e =
      int (length (filter (\<lambda>x. guests x = Number g \<and> hall x = hall e \<and> segment x = segment e) db)) + 1"
    if "guests e = Number g" for g
    using that unfolding assms by (simp add: triple_newEntry(4) calculatePosition_count)
  have trip: "guests e = Number 2" "hall e = js ''Any''" "segment e = js ''Any''" if "pd = None"
    using that unfolding assms by (simp_all add: triple_newEntry parseInt_2)
  have none: "position e =
      int (length (filter (\<lambda>x. guests x = Number 2 \<and> hall x = js ''Any'' \<and> segment x = js ''Any'') db)) + 1"
    if "pd = None"
    using pos [OF trip(1) [OF that]] trip(2,3) [OF that] by simp
  have nowait: "estimatedWaitMinutes e = Number (of_int (position e) * 15)"
    if "opt_chain pd pending_timeSlot = None"
    using that wait by (simp add: truthy_def)
  have nonewait: "estimatedWaitMinutes e =
      Number ((of_int (int (length (filter
         (\<lambda>x. guests x = Number 2 \<and> hall x = js ''Any'' \<and> segment x = js ''Any'') db))) + 1) * 15)"
    if "pd = None"
    using nowait none [OF that] that by simp
  have date: "queueDate e = today_iso now" if "opt_chain pd pending_queueDate = None"
    using that unfolding assms by (simp add: queueDate_newEntry)
  have joined: "currentUserEntry (snd (handleJoinQueue rt now joinQueue st)) =
      Some (case joinQueue e of Some created \<Rightarrow> created | None \<Rightarrow> e)"
    if "truthy (trim (form_name (formData st))) \<and> truthy (trim (form_contact (formData st)))"
    using that unfolding assms by (simp add: handleJoinQueue_def Let_def)
  have defaults:
    "opt_chain pd pending_guests = None \<longrightarrow> guests e = Number 2"
    "opt_chain pd pending_tableLocation = None \<and> opt_chain pd pending_location = None \<longrightarrow>
       hall e = js ''Any''"
    "opt_chain pd pending_tableSegment = None \<and> opt_chain pd pending_segment = None \<longrightarrow>
       segment e = js ''Any''"
    unfolding assms by (simp_all add: triple_newEntry parseInt_2)
  show ?thesis
    using defaults slot channel pos none nowait nonewait date joined local_today_same_day [of now rt]
    by (simp add: truthy_def)
qed

text \<open>
  An instance: a join with nothing staged at 11:03 PM on 2024-01-15 in the time zone
  UTC+05:30, into a list that holds two entries with the default triple and one
  with four guests. The position is 3 and the wait 45 minutes.
\<close>

theorem C10_join_defaults_example:
  "guests (newEntry (example_runtime 19800000) 1705340000000
       (example_state (js ''Asha'') (js ''9840012345'')
          [walk_in None 1 1705300000000, (walk_in None 1 1705300300000)\<lparr>guests := Number 4\<rparr>,
           walk_in None 2 1705300600000])) = Number 2
   \<and> queueDate (newEntry (example_runtime 19800000) 1705340000000
       (example_state (js ''Asha'') (js ''9840012345'')
          [walk_in None 1 1705300000000, (walk_in None 1 1705300300000)\<lparr>guests := Number 4\<rparr>,
           walk_in None 2 1705300600000])) = local_today (example_runtime 19800000) 1705340000000
   \<and> position (newEntry (example_runtime 19800000) 1705340000000
       (example_state (js ''Asha'') (js ''9840012345'')
          [walk_in None 1 1705300000000, (walk_in None 1 1705300300000)\<lparr>guests := Number 4\<rparr>,
           walk_in None 2 1705300600000])) = 3
   \<and> estimatedWaitMinutes (newEntry (example_runtime 19800000) 1705340000000
       (example_state (js ''Asha'') (js ''9840012345'')
          [walk_in None 1 1705300000000, (walk_in None 1 1705300300000)\<lparr>guests := Number 4\<rparr>,
           walk_in None 2 1705300600000])) = Number 45"
proof -
  let ?rt = "example_runtime 19800000"
  let ?db = "[walk_in None 1 1705300000000, (walk_in None 1 1705300300000)\<lparr>guests := Number 4\<rparr>,
           walk_in None 2 1705300600000]"
  let ?st = "example_state (js ''Asha'') (js ''9840012345'') ?db"
  let ?e = "newEntry ?rt 1705340000000 ?st"
  have pd: "None = pendingData ?st" and db: "?db = queueDatabase ?st"
    by (simp_all add: example_state_def)
  have day: "0 \<le> 1705340000000 mod msPerDay + LocalTZA ?rt 1705340000000 True"
    "1705340000000 mod msPerDay + LocalTZA ?rt 1705340000000 True < msPerDay"
    by (simp_all add: example_runtime_def msPerDay_def)
  have count: "length (filter (\<lambda>x. guests x = Number 2 \<and> hall x = js ''Any'' \<and> segment x = js ''Any'') ?db) = 2"
    by (simp add: walk_in_def)
  note d = C10_join_defaults [where rt = ?rt and now = 1705340000000, OF refl pd db,
      unfolded opt_chain.simps]
  from d have "guests ?e = Number 2" by blast
  moreover from d day have "queueDate ?e = local_today ?rt 1705340000000" by blast
  moreover have "position ?e = 3"
  proof -
    from d have "position ?e =
        int (length (filter (\<lambda>x. guests x = Number 2 \<and> hall x = js ''Any'' \<and> segment x = js ''Any'') ?db)) + 1"
      by blast
    then show ?thesis unfolding count by simp
  qed
  moreover have "estimatedWaitMinutes ?e = Number 45"
  proof -
    from d have "estimatedWaitMinutes ?e =
        Number ((of_int (int (length (filter
          (\<lambda>x. guests x = Number 2 \<and> hall x = js ''Any'' \<and> segment x = js ''Any'') ?db))) + 1) * 15)"
      by blast
    then show ?thesis unfolding count by simp
  qed
  ultimately show ?thesis by simp
qed

subsection \<open>Validation of the form\<close>

text \<open>
  Claim C8. When the trimmed name or the trimmed contact is empty, the join returns
  the state as it was (list, current entry, staged data and all) and its only
  effect is one alert. When both are non-empty, the join goes through: one entry
  is appended to the list and becomes the current entry.
\<close>

theorem C8_join_validation:
  "(trim (form_name (formData st)) = [] \<or> trim (form_contact (formData st)) = [] \<longrightarrow>
      snd (handleJoinQueue rt now joinQueue st) = st
      \<and> (\<exists>msg. fst (handleJoinQueue rt now joinQueue st) = [Alert msg]))
   \<and> (trim (form_name (formData st)) \<noteq> [] \<and> trim (form_contact (formData st)) \<noteq> [] \<longrightarrow>
      (\<exists>joined. queueDatabase (snd (handleJoinQueue rt now joinQueue st)) = queueDatabase st @ [joined]
         \<and> currentUserEntry (snd (handleJoinQueue rt now joinQueue st)) = Some joined
         \<and> fst (handleJoinQueue rt now joinQueue st) =
             [OnJoinQueue (position joined), RemoveItem (js ''pendingQueueData'')]))"
  by (simp add: handleJoinQueue_def truthy_def Let_def)

text \<open>An instance: a name of two spaces.\<close>

theorem C8_join_validation_example:
  "snd (handleJoinQueue (example_runtime 0) 1705340000000 (\<lambda>e. None)
          (example_state (js ''  '') (js ''9840012345'') []))
     = example_state (js ''  '') (js ''9840012345'') []
   \<and> (\<exists>msg. fst (handleJoinQueue (example_runtime 0) 1705340000000 (\<lambda>e. None)
          (example_state (js ''  '') (js ''9840012345'') [])) = [Alert msg])"
  using C8_join_validation [of "example_state (js ''  '') (js ''9840012345'') []"
      "example_runtime 0" 1705340000000 "\<lambda>e. None"]
  by (simp add: example_state_def trim_def is_ws_def js_def)

subsection \<open>Cancellation\<close>

text \<open>
  Claim C7. After a confirmed cancellation of the current entry \<open>cur\<close> the current
  entry is \<^verbatim>\<open>null\<close>, the form fields are empty and the staged data is \<^verbatim>\<open>null\<close>,
  whatever the remote calls did. When the remote cancel fails, or when it succeeds
  and the refresh fails, the list is the old list without the entries that carry the
  identifier of \<open>cur\<close>, so \<open>cur\<close> is not in it. When both calls succeed the list is
  the refreshed one.
\<close>

theorem C7_cancel_clears_local_state:
  assumes "currentUserEntry st = Some cur"
    and "dateStr = (if truthy (queueDate cur) then queueDate cur else today_iso now)"
    and "st' = handleCancelQueue now True cancelQueueEntry fetchQueueEntries st"
  shows "currentUserEntry st' = None
     \<and> formData st' = \<lparr>form_name = [], form_contact = []\<rparr>
     \<and> pendingData st' = None
     \<and> (\<not> cancelQueueEntry (entry_id cur) \<or> fetchQueueEntries dateStr = None \<longrightarrow>
          queueDatabase st' = filter (\<lambda>e. entry_id e \<noteq> entry_id cur) (queueDatabase st)
          \<and> cur \<notin> set (queueDatabase st'))
     \<and> (\<forall>refreshed. cancelQueueEntry (entry_id cur) \<and> fetchQueueEntries dateStr = Some refreshed \<longrightarrow>
          queueDatabase st' = refreshed)"
  using assms by (auto simp: handleCancelQueue_def Let_def)

text \<open>An instance: two entries, the second one cancelled while the remote cancel fails.\<close>

theorem C7_cancel_clears_local_state_example:
  "queueDatabase (handleCancelQueue 1705340000000 True (\<lambda>i. False) (\<lambda>d. None)
      ((example_state (js ''Asha'') (js ''9840012345'')
          [walk_in None 1 1705300000000, walk_in None 2 1705300600000])
        \<lparr>currentUserEntry := Some (walk_in None 2 1705300600000)\<rparr>))
     = [walk_in None 1 1705300000000]
   \<and> currentUserEntry (handleCancelQueue 1705340000000 True (\<lambda>i. False) (\<lambda>d. None)
      ((example_state (js ''Asha'') (js ''9840012345'')
          [walk_in None 1 1705300000000, walk_in None 2 1705300600000])
        \<lparr>currentUserEntry := Some (walk_in None 2 1705300600000)\<rparr>)) = None"
  using C7_cancel_clears_local_state [where cur = "walk_in None 2 1705300600000"
      and st = "(example_state (js ''Asha'') (js ''9840012345'')
          [walk_in None 1 1705300000000, walk_in None 2 1705300600000])
        \<lparr>currentUserEntry := Some (walk_in None 2 1705300600000)\<rparr>"
      and now = 1705340000000 and cancelQueueEntry = "\<lambda>i. False" and fetchQueueEntries = "\<lambda>d. None"
      and dateStr = "js ''2024-01-15''", OF _ _ refl]
  by (simp add: example_state_def walk_in_def truthy_def js_def show_int_def decimal.simps)

subsection \<open>The slot-based estimate and the time zone\<close>

text \<open>
  With a slot that parses to the start instant \<open>start\<close>, a tick sets the wait to
  \<open>max 0 (start - now)\<close> in minutes.
\<close>

lemma slot_wait:
  assumes "timeSlot prev = Some ts" and "truthy ts" and "truthy (queueDate prev)"
    and "parseSlotTimes rt (queueDate prev) ts = Some (Number start, end)"
  shows "newEstimatedWaitMinutes rt now prev = Number (max 0 (of_int (start - now) / (1000 * 60)))"
  using assms by (simp add: newEstimatedWaitMinutes_unfold)

text \<open>
  Where that start instant lies depends on the time zone. The service date parses to
  midnight UTC (\<open>t0\<close>, a multiple of a day), and \<^verbatim>\<open>setHours\<close> then sets the time
  within the local day of that instant: the service date itself when local time is
  at or ahead of UTC, the day before when local time is behind UTC. The offset \<open>z\<close>
  is constant in these lemmas.
\<close>

lemma setHours_east:
  assumes "0 \<le> z" and "z < msPerDay" and "t0 mod msPerDay = 0"
  shows "setHours (\<lambda>t isUTC. z) (Number t0) h m =
           TimeClip (t0 - z + int h * 3600000 + int m * 60000)"
proof -
  have "(t0 + z) div msPerDay = t0 div msPerDay"
    using assms by (simp add: msPerDay_def div_add1_eq)
  moreover have "t0 div msPerDay * msPerDay = t0"
    using assms(3) by (simp add: msPerDay_def mod_0_imp_dvd)
  ultimately show ?thesis by (simp add: algebra_simps)
qed

lemma setHours_west:
  assumes "z < 0" and "- msPerDay \<le> z" and "t0 mod msPerDay = 0"
  shows "setHours (\<lambda>t isUTC. z) (Number t0) h m =
           TimeClip (t0 - msPerDay - z + int h * 3600000 + int m * 60000)"
proof -
  have "(t0 + z) div msPerDay = t0 div msPerDay - 1"
    using assms by (simp add: msPerDay_def div_add1_eq div_pos_neg_trivial zdiv_eq_0_iff)
  then have "(t0 + z) div msPerDay * msPerDay = t0 div msPerDay * msPerDay - msPerDay"
    by (simp add: left_diff_distrib)
  moreover have "t0 div msPerDay * msPerDay = t0"
    using assms(3) by (simp add: msPerDay_def mod_0_imp_dvd)
  ultimately have day: "(t0 + z) div msPerDay * msPerDay = t0 - msPerDay" by simp
  have key: "(t0 + z) div msPerDay * msPerDay + (int h * 3600000 + int m * 60000) - z =
      t0 - msPerDay - z + int h * 3600000 + int m * 60000"
    unfolding day by simp
  show ?thesis
    unfolding setHours.simps Let_def by (rule arg_cong [where f = TimeClip, OF key])
qed

text \<open>
  So at 5:45 PM local time on the service date the slot that starts at 6:00 PM gives
  15 minutes east of UTC and 0 minutes west of it.
\<close>

lemma slot_6pm_wait:
  assumes "timeSlot prev = Some slot_6pm" and "truthy (queueDate prev)"
    and "Date_new rt (JStr (queueDate prev)) = Number t0" and "t0 mod msPerDay = 0"
    and "\<bar>t0\<bar> \<le> 8000000000000000"
    and "LocalTZA rt = (\<lambda>t isUTC. z)"
    and "now = t0 - z + (17 * 60 + 45) * 60000"
  shows "0 \<le> z \<Longrightarrow> z < msPerDay \<Longrightarrow> newEstimatedWaitMinutes rt now prev = Number 15"
    and "z < 0 \<Longrightarrow> - msPerDay \<le> z \<Longrightarrow> newEstimatedWaitMinutes rt now prev = Number 0"
proof -
  have t: "truthy slot_6pm" by (simp add: truthy_def slot_6pm_def js_def)
  {
    assume z: "0 \<le> z" "z < msPerDay"
    then have "TimeClip (t0 - z + int 18 * 3600000 + int 0 * 60000) = Number (t0 - z + 64800000)"
      using assms(5) by (simp add: TimeClip_def msPerDay_def)
    with setHours_east [OF z assms(4), of 18 0]
    show "newEstimatedWaitMinutes rt now prev = Number 15"
      using assms t by (simp add: newEstimatedWaitMinutes_unfold parseSlotTimes_slot_6pm)
  }
  {
    assume z: "z < 0" "- msPerDay \<le> z"
    then have "TimeClip (t0 - msPerDay - z + int 18 * 3600000 + int 0 * 60000) =
        Number (t0 - msPerDay - z + 64800000)"
      using assms(5) by (simp add: TimeClip_def msPerDay_def)
    with setHours_west [OF z assms(4), of 18 0]
    show "newEstimatedWaitMinutes rt now prev = Number 0"
      using assms t by (simp add: newEstimatedWaitMinutes_unfold parseSlotTimes_slot_6pm msPerDay_def)
  }
qed

lemma truthy_date: "truthy (js ''2024-01-15'')"
  by (simp add: truthy_def js_def)

lemma slot_wait_east_of_UTC_example:
  "estimatedWaitMinutes (snd (ewt_tick (example_runtime 19800000)
      (1705276800000 - 19800000 + (17 * 60 + 45) * 60000)
      (walk_in (Some slot_6pm) 1 1705300000000))) = Number 15"
proof -
  have "newEstimatedWaitMinutes (example_runtime 19800000)
      (1705276800000 - 19800000 + (17 * 60 + 45) * 60000)
      (walk_in (Some slot_6pm) 1 1705300000000) = Number 15"
    by (rule slot_6pm_wait(1) [where ?t0.0 = 1705276800000 and z = 19800000])
       (simp_all add: walk_in_def truthy_date example_runtime_def Date_iso_date_2024_01_15 msPerDay_def)
  then show ?thesis by (simp add: ewt_tick_cases)
qed

text \<open>
  Claim C3 states that with the slot \<^verbatim>\<open>6:00 PM - 6:30 PM\<close> on the date \<open>D\<close>, at 5:45 PM
  on \<open>D\<close>, the estimated wait is exactly 15 minutes. In the time zone UTC-05:00, for
  \<open>D\<close> = 2024-01-15 and the clock at 5:45 PM local time of that day, the tick stores
  0: the source puts the start of the slot on 2024-01-14.
\<close>

theorem C3_slot_wait_west_of_UTC:
  "estimatedWaitMinutes (snd (ewt_tick (example_runtime (- 18000000))
      (1705276800000 + 18000000 + (17 * 60 + 45) * 60000)
      (walk_in (Some slot_6pm) 1 1705350000000))) = Number 0"
proof -
  have "newEstimatedWaitMinutes (example_runtime (- 18000000))
      (1705276800000 + 18000000 + (17 * 60 + 45) * 60000)
      (walk_in (Some slot_6pm) 1 1705350000000) = Number 0"
    by (rule slot_6pm_wait(2) [where ?t0.0 = 1705276800000 and z = "- 18000000"])
       (simp_all add: walk_in_def truthy_date example_runtime_def Date_iso_date_2024_01_15 msPerDay_def)
  then show ?thesis by (simp add: ewt_tick_cases)
qed

subsection \<open>A slot that does not parse\<close>

lemma unparsed_slot_tick:
  assumes "timeSlot prev = Some ts" and "truthy ts" and "truthy (queueDate prev)"
    and "parseSlotTimes rt (queueDate prev) ts = None"
  shows "newEstimatedWaitMinutes rt now prev = Number 0"
  using assms by (simp add: newEstimatedWaitMinutes_unfold)

lemma unparsed_slot_join:
  assumes "parseSlotTimes rt (queueDate (newEntry rt now st))
             (or_else (opt_chain (pendingData st) pending_timeSlot) []) = None"
  shows "estimatedWaitMinutes (newEntry rt now st) =
           Number (of_int (position (newEntry rt now st)) * 15)"
proof -
  have "estimatedWaitMinutes (newEntry rt now st) =
      (if truthy (or_else (opt_chain (pendingData st) pending_timeSlot) [])
          \<and> truthy (queueDate (newEntry rt now st)) then
         (case parseSlotTimes rt (queueDate (newEntry rt now st))
                 (or_else (opt_chain (pendingData st) pending_timeSlot) []) of
            Some (start, end) \<Rightarrow> Math_max0 (to_minutes (num_minus start (Number now)))
          | None \<Rightarrow> Number (of_int (position (newEntry rt now st) * 15)))
       else Number (of_int (position (newEntry rt now st) * 15)))"
    by (simp add: newEntry_def Let_def cong: if_cong option.case_cong)
  with assms show ?thesis by simp
qed

text \<open>
  Claim C6 states that an entry whose slot does not parse gets the position-based
  estimate at join time and on every tick. The join does so (\<open>unparsed_slot_join\<close>);
  the tick does not (\<open>unparsed_slot_tick\<close>). For the slot \<^verbatim>\<open>6 PM - 7 PM\<close>, whose tokens
  lack the minutes, position 3 and ten minutes after the join, the tick stores 0,
  where the position-based estimate is 35.
\<close>

theorem C6_unparsed_slot_tick_is_zero:
  "parseSlotTimes (example_runtime 0) (js ''2024-01-15'') (js ''6 PM - 7 PM'') = None
   \<and> estimatedWaitMinutes (snd (ewt_tick (example_runtime 0) (1705340000000 + 10 * 60000)
        (walk_in (Some (js ''6 PM - 7 PM'')) 3 1705340000000))) = Number 0"
proof -
  have "newEstimatedWaitMinutes (example_runtime 0) (1705340000000 + 10 * 60000)
          (walk_in (Some (js ''6 PM - 7 PM'')) 3 1705340000000) = Number 0"
    by (rule unparsed_slot_tick [where ts = "js ''6 PM - 7 PM''"])
       (simp_all add: walk_in_def truthy_6_to_7 truthy_date parseSlotTimes_6_to_7)
  then show ?thesis
    by (simp add: ewt_tick_cases parseSlotTimes_6_to_7)
qed

subsection \<open>Persisted state that does not parse\<close>

lemma init_parse_failure:
  assumes "JSON_parse rt s = None" and "truthy s"
  shows "queueDatabase_init rt now (Some s) = []"
    and "currentUserEntry_init rt (Some s) = Inl SyntaxError"
  using assms by (simp_all add: queueDatabase_init_def currentUserEntry_init_def)

text \<open>
  Claim C9 states that a persisted text that does not parse is treated as absent
  data by both initializers. For the text \<^verbatim>\<open>{\<close> the list initializer returns the
  empty list, and the initializer of the current entry throws \<^verbatim>\<open>SyntaxError\<close>.
\<close>

theorem C9_current_entry_parse_failure_throws:
  "queueDatabase_init (example_runtime 0) 1705340000000 (Some (js ''{'')) = []
   \<and> currentUserEntry_init (example_runtime 0) (Some (js ''{'')) = Inl SyntaxError"
  by (simp add: queueDatabase_init_def currentUserEntry_init_def example_runtime_def js_def truthy_def)

end
